theory Spec2Isabelle
  imports Main
begin

section \<open>JavaScript values\<close>

text \<open>
  The values a model attribute or a parsed JSON response body can hold. \<open>JNum\<close> stands for
  the integer-valued numbers below \<open>2 ^ 53\<close> in magnitude, which JavaScript prints in plain
  decimal notation; fractional numbers are outside the model. An object is the list of its
  own properties in enumeration order.
\<close>

datatype jsval =
    JUndefined
  | JNull
  | JBool bool
  | JNum int
  | JStr string
  | JArr "jsval list"
  | JObj "(string \<times> jsval) list"

type_synonym jsobject = "(string \<times> jsval) list"

definition digit_char :: "nat \<Rightarrow> char" where
  "digit_char d = ''0123456789'' ! d"

function show_nat :: "nat \<Rightarrow> string" where
  "show_nat n = (if n < 10 then [digit_char n] else show_nat (n div 10) @ [digit_char (n mod 10)])"
  by pat_completeness auto
termination
  by (relation "measure id") auto

definition show_int :: "int \<Rightarrow> string" where
  "show_int i = (if i < 0 then CHR ''-'' # show_nat (nat (- i)) else show_nat (nat i))"

fun join_comma :: "string list \<Rightarrow> string" where
  "join_comma [] = []"
| "join_comma [s] = s"
| "join_comma (s # t # ss) = s @ '','' @ join_comma (t # ss)"

text \<open>
  \<open>ToString\<close>, as the \<open>+\<close> operator applies it to its right operand when the left one is a
  string. An array is joined with commas, its \<open>undefined\<close> and \<open>null\<close> elements printing as
  the empty string; a plain object prints as \<open>[object Object]\<close>.
\<close>

fun js_to_string :: "jsval \<Rightarrow> string" where
  "js_to_string JUndefined = ''undefined''"
| "js_to_string JNull = ''null''"
| "js_to_string (JBool b) = (if b then ''true'' else ''false'')"
| "js_to_string (JNum n) = show_int n"
| "js_to_string (JStr s) = s"
| "js_to_string (JArr xs) =
     join_comma (map (\<lambda>x. if x = JUndefined \<or> x = JNull then [] else js_to_string x) xs)"
| "js_to_string (JObj ps) = ''[object Object]''"

text \<open>
  Underscore's \<open>_.isEqual\<close>, the deep comparison Backbone uses to decide whether an attribute
  changed: scalars by value, arrays element by element, objects by their keys whatever the
  order.
\<close>

fun lookup_prop :: "jsobject \<Rightarrow> string \<Rightarrow> jsval option" where
  "lookup_prop [] k = None"
| "lookup_prop ((k', v) # ps) k = (if k' = k then Some v else lookup_prop ps k)"

function (sequential) is_equal :: "jsval \<Rightarrow> jsval \<Rightarrow> bool" where
  "is_equal (JArr xs) (JArr ys) =
     (length xs = length ys \<and> list_all (\<lambda>(x, y). is_equal x y) (zip xs ys))"
| "is_equal (JObj ps) (JObj qs) =
     (length ps = length qs \<and>
      list_all (\<lambda>(k, v). case lookup_prop qs k of None \<Rightarrow> False | Some v' \<Rightarrow> is_equal v v') ps)"
| "is_equal (JArr xs) b = False"
| "is_equal (JObj ps) b = False"
| "is_equal a b = (a = b)"
  by pat_completeness auto
termination
proof (relation "measure (\<lambda>(a, b). size a)")
  show "wf (measure (\<lambda>(a, b). size a))" by simp
next
  fix xs ys :: "jsval list" and z x y
  assume "z \<in> set (zip xs ys)" and "(x, y) = z"
  then have "x \<in> set xs" by (auto dest: set_zip_leftD)
  then have "size x \<le> size_list size xs" by (simp add: size_list_estimation')
  then show "((x, y), JArr xs, JArr ys) \<in> measure (\<lambda>(a, b). size a)" by simp
next
  fix ps qs :: jsobject and z k v v'
  assume "z \<in> set ps" and "(k, v) = z"
  then have "(k, v) \<in> set ps" by simp
  then have "size v < Suc (size_list (size_prod (\<lambda>x. 0) size) ps)"
    by (induction ps) auto
  then show "((v, v'), JObj ps, JObj qs) \<in> measure (\<lambda>(a, b). size a)" by simp
qed

section \<open>The collection model\<close>

text \<open>
  A Backbone model: its attribute hash and, for what the rest of the application can
  observe, the log of the events it triggered. Each entry of the log keeps the attributes
  as they were when the event was delivered, which is what a listener reads.
\<close>

type_synonym attrs = "string \<rightharpoonup> jsval"

record event =
  ev_name :: string
  ev_attrs :: attrs

datatype http_method = GET | POST | PUT | DELETE

record request =
  req_method :: http_method
  req_path :: string

record world =
  attributes :: attrs
  events :: "event list"
  network :: "request list"

text \<open>\<open>Model.get\<close>: the attribute, \<open>undefined\<close> when it is not set.\<close>

definition get :: "attrs \<Rightarrow> string \<Rightarrow> jsval" where
  "get a k = (case a k of None \<Rightarrow> JUndefined | Some v \<Rightarrow> v)"

text \<open>\<open>Events.trigger\<close>: deliver the event to the listeners.\<close>

definition trigger :: "string \<Rightarrow> world \<Rightarrow> world" where
  "trigger n w = w\<lparr>events := events w @ [\<lparr>ev_name = n, ev_attrs = attributes w\<rparr>]\<rparr>"

text \<open>
  \<open>Model.set\<close> with an attribute hash and no options. The loop assigns every property of
  the hash to the attributes, in enumeration order, and notes the names whose value
  differs from the current one; no attribute is ever removed. After the loop a
  \<open>change:<name>\<close> event is triggered for each noted name, then one \<open>change\<close> event if
  any name was noted. (The bookkeeping fields \<open>changed\<close>, \<open>_previousAttributes\<close> and
  \<open>id\<close> are not attributes and are left out.)
\<close>

fun set_loop :: "jsobject \<Rightarrow> attrs \<Rightarrow> string list \<Rightarrow> attrs \<times> string list" where
  "set_loop [] cur changes = (cur, changes)"
| "set_loop ((k, v) # ps) cur changes =
     set_loop ps (cur(k \<mapsto> v)) (if is_equal (get cur k) v then changes else changes @ [k])"

fun trigger_all :: "string list \<Rightarrow> world \<Rightarrow> world" where
  "trigger_all [] w = w"
| "trigger_all (n # ns) w = trigger_all ns (trigger n w)"

definition set_attrs :: "jsobject \<Rightarrow> world \<Rightarrow> world" where
  "set_attrs resp w =
     (let (cur, changes) = set_loop resp (attributes w) [];
          w1 = w\<lparr>attributes := cur\<rparr>;
          w2 = trigger_all (map (\<lambda>k. ''change:'' @ k) changes) w1
      in if changes = [] then w2 else trigger ''change'' w2)"

section \<open>The REST request\<close>

text \<open>
  Modelled from the spec: \<open>girder.restRequest\<close> is not in the sources at hand. The spec
  describes what it does for this caller as one read request to the path given, against a
  REST-style backend; so it sends one \<open>GET\<close> request to the \<open>path\<close> property of its
  options. The request later completes in one of two ways: resolved with the parsed JSON
  object of the response body, or rejected with the failure the transport reports.
\<close>

definition get_prop :: "jsobject \<Rightarrow> string \<Rightarrow> jsval" where
  "get_prop obj k = (case lookup_prop obj k of None \<Rightarrow> JUndefined | Some v \<Rightarrow> v)"

definition restRequest :: "jsobject \<Rightarrow> world \<Rightarrow> world" where
  "restRequest opts w =
     w\<lparr>network := network w @ [\<lparr>req_method = GET, req_path = js_to_string (get_prop opts ''path'')\<rparr>]\<rparr>"

record failure =
  status :: int
  status_text :: string
  response_text :: string

datatype outcome = Resolved jsobject | Rejected failure

section \<open>CollectionModel.fetch\<close>

text \<open>The options object literal that \<open>fetch\<close> passes to \<open>restRequest\<close>.\<close>

definition fetch_opts :: "attrs \<Rightarrow> jsobject" where
  "fetch_opts a =
     [(''path'', JStr (''collection/'' @ js_to_string (get a ''_id''))),
      (''error'', JNull)]"

text \<open>The synchronous part of \<open>fetch\<close>: the request is sent and the two callbacks are registered.\<close>

definition fetch :: "world \<Rightarrow> world" where
  "fetch w = restRequest (fetch_opts (attributes w)) w"

text \<open>The function given to \<open>done\<close>; it receives the response body.\<close>

definition done_callback :: "jsobject \<Rightarrow> world \<Rightarrow> world" where
  "done_callback resp w = trigger ''g:fetched'' (set_attrs resp w)"

text \<open>The function given to \<open>error\<close>; it takes no argument.\<close>

definition error_callback :: "world \<Rightarrow> world" where
  "error_callback w = trigger ''g:error'' w"

text \<open>The request completes: the callback registered for the outcome runs, the other never does.\<close>

definition settle :: "outcome \<Rightarrow> world \<Rightarrow> world" where
  "settle out w = (case out of Resolved resp \<Rightarrow> done_callback resp w | Rejected f \<Rightarrow> error_callback w)"

text \<open>One invocation of \<open>fetch\<close> together with the completion of its request.\<close>

definition fetch_completed :: "outcome \<Rightarrow> world \<Rightarrow> world" where
  "fetch_completed out w = settle out (fetch w)"

text \<open>What an invocation added to the event log and to the network log.\<close>

definition new_events :: "world \<Rightarrow> world \<Rightarrow> event list" where
  "new_events w w' = drop (length (events w)) (events w')"

definition new_requests :: "world \<Rightarrow> world \<Rightarrow> request list" where
  "new_requests w w' = drop (length (network w)) (network w')"

definition is_fetch_signal :: "event \<Rightarrow> bool" where
  "is_fetch_signal e = (ev_name e = ''g:fetched'' \<or> ev_name e = ''g:error'')"

text \<open>
  The change notifications \<open>set\<close> delivers for a hash: one per noted name, then the
  general one; all of them carry the attributes as they are after the loop.
\<close>

definition change_events :: "jsobject \<Rightarrow> world \<Rightarrow> event list" where
  "change_events resp w =
     (let (cur, changes) = set_loop resp (attributes w) []
      in map (\<lambda>n. \<lparr>ev_name = n, ev_attrs = cur\<rparr>)
           (map (\<lambda>k. ''change:'' @ k) changes @ (if changes = [] then [] else [''change''])))"

text \<open>The response body and the models of the testable properties.\<close>

definition resp_ab :: jsobject where
  "resp_ab = [(''a'', JNum 1), (''b'', JNum 2)]"

definition new_model :: world where
  "new_model = \<lparr>attributes = Map.empty, events = [], network = []\<rparr>"

definition model_with_id :: "string \<Rightarrow> world" where
  "model_with_id i = \<lparr>attributes = [''_id'' \<mapsto> JStr i], events = [], network = []\<rparr>"

section \<open>The provisioning play\<close>

text \<open>
  A templated YAML scalar: literal text, a variable \<open>{{ x }}\<close>, or a variable that is
  left out when undefined, \<open>{{ x|default(omit) }}\<close>.
\<close>

datatype tmpl = Lit string | Var string | VarOrOmit string

type_synonym template = "tmpl list"

datatype resource_state = Present | Absent

record girder_user =
  firstName :: string
  lastName :: string
  login :: string
  password :: string
  email :: string
  admin :: bool

record girder_assetstore =
  as_name :: string
  as_type :: string
  as_root :: template
  as_current :: bool

datatype girder_resource =
    User girder_user
  | Assetstore girder_assetstore
  | Plugins "string list"

text \<open>
  The module a task calls, with the parameters the play gives it: \<open>apt\<close> with
  \<open>update_cache\<close> only, \<open>apt\<close> with a package name, \<open>git\<close> (repo, dest, version, update,
  force), \<open>pip\<close>, and \<open>girder\<close> (port, credentials, resource, state).
\<close>

datatype module_call =
    Apt_update_cache
  | Apt template
  | Git template template template template template
  | Pip string
  | Girder nat "(string \<times> string) option" girder_resource resource_state

record task =
  task_name :: string
  call :: module_call
  become_user :: "string option"
  with_items :: "string list"
  register :: "string option"
  notify :: "string option"

record role_ref =
  role :: string
  role_become_user :: "string option"

record play =
  hosts :: string
  vars :: "(string \<times> bool) list"
  pre_tasks :: "task list"
  roles :: "role_ref list"
  post_tasks :: "task list"

subsection \<open>The tasks of the girder role\<close>

definition install_dependencies :: task where
  "install_dependencies =
     \<lparr>task_name = ''Install Girder system dependencies'',
      call = Apt [Var ''item''],
      become_user = Some ''root'',
      with_items = [''git'', ''libffi-dev'', ''build-essential'', ''python2.7-dev'',
                    ''python-pip'', ''libjpeg-dev'', ''libssl-dev'', ''zlib1g-dev''],
      register = None,
      notify = None\<rparr>"

definition download_girder :: task where
  "download_girder =
     \<lparr>task_name = ''Download Girder'',
      call = Git [Lit ''https://github.com/girder/girder.git''] [Var ''girder_path'']
               [Var ''girder_version''] [VarOrOmit ''girder_update''] [VarOrOmit ''girder_force''],
      become_user = None,
      with_items = [],
      register = Some ''vc'',
      notify = Some ''Build Girder (web)''\<rparr>"

definition girder_role_tasks :: "task list" where
  "girder_role_tasks = [install_dependencies, download_girder]"

subsection \<open>The playbook\<close>

definition update_package_cache :: task where
  "update_package_cache =
     \<lparr>task_name = ''Update package cache'',
      call = Apt_update_cache,
      become_user = Some ''root'',
      with_items = [],
      register = None,
      notify = None\<rparr>"

definition install_girder_client :: task where
  "install_girder_client =
     \<lparr>task_name = ''Install girder-client'',
      call = Pip ''girder-client'',
      become_user = Some ''root'',
      with_items = [],
      register = None,
      notify = None\<rparr>"

definition admin_user :: girder_user where
  "admin_user =
     \<lparr>firstName = ''Girder'', lastName = ''Administrator'', login = ''girder'',
      password = ''girder'', email = ''girder@girder.girder'', admin = True\<rparr>"

definition create_admin_user :: task where
  "create_admin_user =
     \<lparr>task_name = ''Create admin user'',
      call = Girder 8080 None (User admin_user) Present,
      become_user = None,
      with_items = [],
      register = None,
      notify = None\<rparr>"

definition primary_assetstore :: girder_assetstore where
  "primary_assetstore =
     \<lparr>as_name = ''Primary assetstore'', as_type = ''filesystem'',
      as_root = [Var ''ansible_user_dir'', Lit ''/assetstore''], as_current = True\<rparr>"

definition setup_assetstore :: task where
  "setup_assetstore =
     \<lparr>task_name = ''Setup filesystem assetstore'',
      call = Girder 8080 (Some (''girder'', ''girder'')) (Assetstore primary_assetstore) Present,
      become_user = None,
      with_items = [],
      register = None,
      notify = None\<rparr>"

definition enable_gravatar :: task where
  "enable_gravatar =
     \<lparr>task_name = ''Enable gravatar plugin'',
      call = Girder 8080 (Some (''girder'', ''girder'')) (Plugins [''gravatar'']) Present,
      become_user = None,
      with_items = [],
      register = None,
      notify = None\<rparr>"

definition playbook :: play where
  "playbook =
     \<lparr>hosts = ''all'',
      vars = [(''girder_update'', False), (''girder_force'', False)],
      pre_tasks = [update_package_cache],
      roles = [\<lparr>role = ''Stouts.mongodb'', role_become_user = Some ''root''\<rparr>,
               \<lparr>role = ''girder'', role_become_user = None\<rparr>],
      post_tasks = [install_girder_client, create_admin_user, setup_assetstore, enable_gravatar]\<rparr>"

subsection \<open>The order of a run\<close>

text \<open>
  A play runs its \<open>pre_tasks\<close>, then the tasks of each role in the order the roles are
  listed, then its \<open>post_tasks\<close>. The girder role is the task file above; the tasks of a
  role from elsewhere (\<open>Stouts.mongodb\<close>) are whatever \<open>ext\<close> says. Handlers, which a
  task notifies and which run apart from the task lists, are not part of the order.
\<close>

definition role_tasks :: "(string \<Rightarrow> task list) \<Rightarrow> string \<Rightarrow> task list" where
  "role_tasks ext r = (if r = ''girder'' then girder_role_tasks else ext r)"

definition run_order :: "(string \<Rightarrow> task list) \<Rightarrow> play \<Rightarrow> task list" where
  "run_order ext p =
     pre_tasks p @ concat (map (\<lambda>r. role_tasks ext (role r)) (roles p)) @ post_tasks p"

text \<open>What a task does, read off the module it calls and the state it declares.\<close>

datatype step =
    RefreshPackageCache
  | InstallOsPackages "string list"
  | CloneSource template template
  | InstallLibrary string
  | EnsureUser string resource_state
  | EnsureAssetstore string string resource_state
  | EnsurePlugins "string list" resource_state

fun expand_item :: "string \<Rightarrow> tmpl \<Rightarrow> string" where
  "expand_item item (Lit s) = s"
| "expand_item item (Var x) = (if x = ''item'' then item else ''{{ '' @ x @ '' }}'')"
| "expand_item item (VarOrOmit x) = ''{{ '' @ x @ ''|default(omit) }}''"

definition step_of :: "task \<Rightarrow> step" where
  "step_of t =
     (case call t of
        Apt_update_cache \<Rightarrow> RefreshPackageCache
      | Apt n \<Rightarrow> InstallOsPackages (map (\<lambda>item. concat (map (expand_item item) n)) (with_items t))
      | Git repo dest version update force \<Rightarrow> CloneSource repo version
      | Pip n \<Rightarrow> InstallLibrary n
      | Girder port cred (User u) st \<Rightarrow> EnsureUser (login u) st
      | Girder port cred (Assetstore a) st \<Rightarrow> EnsureAssetstore (as_name a) (as_type a) st
      | Girder port cred (Plugins ps) st \<Rightarrow> EnsurePlugins ps st)"

subsection \<open>The administrative calls\<close>











subsection \<open>Running the play\<close>





















section \<open>Properties of the model operations\<close>

lemma trigger_fields [simp]:
  "attributes (trigger n w) = attributes w"
  "network (trigger n w) = network w"
  "events (trigger n w) = events w @ [\<lparr>ev_name = n, ev_attrs = attributes w\<rparr>]"
  by (simp_all add: trigger_def)

lemma trigger_all_attributes [simp]: "attributes (trigger_all ns w) = attributes w"
  by (induction ns arbitrary: w) simp_all

lemma trigger_all_network [simp]: "network (trigger_all ns w) = network w"
  by (induction ns arbitrary: w) simp_all

lemma trigger_all_events:
  "events (trigger_all ns w) = events w @ map (\<lambda>n. \<lparr>ev_name = n, ev_attrs = attributes w\<rparr>) ns"
  by (induction ns arbitrary: w) simp_all

lemma set_loop_attrs: "fst (set_loop ps cur changes) = cur ++ map_of (rev ps)"
proof (induction ps arbitrary: cur changes)
  case Nil
  show ?case by simp
next
  case (Cons p ps)
  obtain k v where p: "p = (k, v)" by (cases p)
  have "cur(k \<mapsto> v) ++ map_of (rev ps) = cur ++ (map_of [(k, v)] ++ map_of (rev ps))"
    by (simp add: fun_eq_iff map_add_def split: option.splits)
  then show ?case by (simp add: p Cons.IH del: map_of.simps fun_upd_apply)
qed

lemma set_attrs_attributes: "attributes (set_attrs resp w) = attributes w ++ map_of (rev resp)"
proof -
  obtain cur changes where sl: "set_loop resp (attributes w) [] = (cur, changes)"
    by (cases "set_loop resp (attributes w) []")
  have "cur = attributes w ++ map_of (rev resp)"
    using set_loop_attrs [of resp "attributes w" "[]"] by (simp add: sl)
  then show ?thesis by (simp add: set_attrs_def sl Let_def)
qed

lemma set_attrs_network [simp]: "network (set_attrs resp w) = network w"
  by (simp add: set_attrs_def Let_def split: prod.splits)

lemma set_attrs_events: "events (set_attrs resp w) = events w @ change_events resp w"
  by (simp add: set_attrs_def change_events_def trigger_all_events Let_def split: prod.splits)

lemma change_events_no_signal: "filter is_fetch_signal (change_events resp w) = []"
  by (auto simp: change_events_def is_fetch_signal_def filter_empty_conv Let_def split: prod.splits)

lemma fetch_fields:
  "attributes (fetch w) = attributes w"
  "events (fetch w) = events w"
  "network (fetch w) =
     network w @ [\<lparr>req_method = GET, req_path = ''collection/'' @ js_to_string (get (attributes w) ''_id'')\<rparr>]"
  by (simp_all add: fetch_def restRequest_def fetch_opts_def get_prop_def)

lemma done_callback_fields:
  "attributes (done_callback resp w) = attributes w ++ map_of (rev resp)"
  "network (done_callback resp w) = network w"
  "events (done_callback resp w) =
     events w @ change_events resp w @ [\<lparr>ev_name = ''g:fetched'', ev_attrs = attributes w ++ map_of (rev resp)\<rparr>]"
  by (simp_all add: done_callback_def set_attrs_attributes set_attrs_events)

lemma error_callback_fields:
  "attributes (error_callback w) = attributes w"
  "network (error_callback w) = network w"
  "events (error_callback w) = events w @ [\<lparr>ev_name = ''g:error'', ev_attrs = attributes w\<rparr>]"
  by (simp_all add: error_callback_def)

lemma fetch_completed_resolved:
  "attributes (fetch_completed (Resolved resp) w) = attributes w ++ map_of (rev resp)"
  "network (fetch_completed (Resolved resp) w) = network (fetch w)"
  "events (fetch_completed (Resolved resp) w) =
     events w @ change_events resp (fetch w) @
       [\<lparr>ev_name = ''g:fetched'', ev_attrs = attributes w ++ map_of (rev resp)\<rparr>]"
  by (simp_all add: fetch_completed_def settle_def done_callback_fields fetch_fields)

lemma fetch_completed_rejected:
  "attributes (fetch_completed (Rejected f) w) = attributes w"
  "network (fetch_completed (Rejected f) w) = network (fetch w)"
  "events (fetch_completed (Rejected f) w) = events w @ [\<lparr>ev_name = ''g:error'', ev_attrs = attributes w\<rparr>]"
  by (simp_all add: fetch_completed_def settle_def error_callback_fields fetch_fields)

section \<open>Properties of the provisioning play\<close>














section \<open>The claims about fetch\<close>

text \<open>
  C1, as amended. A successful fetch whose response body is \<open>{a: 1, b: 2}\<close> leaves the
  attributes of the model as they were before, with \<open>a\<close> set to 1 and \<open>b\<close> set to 2:
  the success callback hands the body to \<open>set\<close>, which assigns the properties it is
  given and removes nothing. The state is exactly \<open>{a: 1, b: 2}\<close> when the model had no
  attribute other than \<open>a\<close> and \<open>b\<close> before, as a newly constructed model has. The
  last event the model emits is \<open>g:fetched\<close>, delivered with the new attributes in place.
\<close>

theorem fetch_success_ab:
  "attributes (fetch_completed (Resolved resp_ab) w) = (attributes w)(''a'' \<mapsto> JNum 1, ''b'' \<mapsto> JNum 2)
   \<and> (dom (attributes w) \<subseteq> {''a'', ''b''} \<longrightarrow>
        attributes (fetch_completed (Resolved resp_ab) w) = [''a'' \<mapsto> JNum 1, ''b'' \<mapsto> JNum 2])
   \<and> last (events (fetch_completed (Resolved resp_ab) w)) =
        \<lparr>ev_name = ''g:fetched'', ev_attrs = (attributes w)(''a'' \<mapsto> JNum 1, ''b'' \<mapsto> JNum 2)\<rparr>"
proof -
  have m: "attributes w ++ map_of (rev resp_ab) = (attributes w)(''a'' \<mapsto> JNum 1, ''b'' \<mapsto> JNum 2)"
    by (auto simp: resp_ab_def fun_eq_iff map_add_def)
  have e: "dom (attributes w) \<subseteq> {''a'', ''b''} \<Longrightarrow>
      (attributes w)(''a'' \<mapsto> JNum 1, ''b'' \<mapsto> JNum 2) = [''a'' \<mapsto> JNum 1, ''b'' \<mapsto> JNum 2]"
  proof -
    assume d: "dom (attributes w) \<subseteq> {''a'', ''b''}"
    have "\<And>k. k \<noteq> ''a'' \<Longrightarrow> k \<noteq> ''b'' \<Longrightarrow> attributes w k = None"
      using d by (auto simp: dom_def)
    then show ?thesis by (auto simp: fun_eq_iff)
  qed
  show ?thesis using e by (simp add: fetch_completed_resolved m)
qed

theorem fetch_success_ab_witness:
  "dom (attributes new_model) \<subseteq> {''a'', ''b''}
   \<and> attributes (fetch_completed (Resolved resp_ab) new_model) = [''a'' \<mapsto> JNum 1, ''b'' \<mapsto> JNum 2]
   \<and> ev_name (last (events (fetch_completed (Resolved resp_ab) new_model))) = ''g:fetched''"
  using fetch_success_ab [of new_model] by (simp add: new_model_def)

text \<open>
  C1 as stated does not hold: a model that has the \<open>_id\<close> its request was built from
  still has it after the response \<open>{a: 1, b: 2}\<close> has been set, so its state is not
  exactly \<open>{a: 1, b: 2}\<close>.
\<close>

theorem fetch_replaces_state_counterexample:
  "attributes (fetch_completed (Resolved resp_ab) (model_with_id ''5a1''))
     \<noteq> [''a'' \<mapsto> JNum 1, ''b'' \<mapsto> JNum 2]"
proof
  assume eq: "attributes (fetch_completed (Resolved resp_ab) (model_with_id ''5a1''))
     = [''a'' \<mapsto> JNum 1, ''b'' \<mapsto> JNum 2]"
  have "attributes (fetch_completed (Resolved resp_ab) (model_with_id ''5a1'')) ''_id'' = Some (JStr ''5a1'')"
    by (simp add: fetch_completed_resolved resp_ab_def model_with_id_def map_add_def)
  then show False by (simp add: eq)
qed

text \<open>
  C2. When the request of a fetch fails, the attributes of the model after the error
  callback are the attributes it had before \<open>fetch\<close> was invoked, and the model emits
  \<open>g:error\<close> (the one event added to its log).
\<close>

theorem fetch_failure_keeps_state:
  "attributes (fetch_completed (Rejected f) w) = attributes w
   \<and> events (fetch_completed (Rejected f) w) = events w @ [\<lparr>ev_name = ''g:error'', ev_attrs = attributes w\<rparr>]"
  by (simp add: fetch_completed_rejected)

text \<open>
  C3. For a model whose \<open>_id\<close> attribute is the identifier \<open>i\<close>, invoking \<open>fetch\<close>
  sends exactly one request, a read, and its path is \<open>collection/\<close> followed by \<open>i\<close>.
\<close>

theorem fetch_request_path:
  "attributes w ''_id'' = Some (JStr i) \<Longrightarrow>
     new_requests w (fetch w) = [\<lparr>req_method = GET, req_path = ''collection/'' @ i\<rparr>]
     \<and> network (fetch w) = network w @ new_requests w (fetch w)"
  by (simp add: new_requests_def fetch_fields get_def)

theorem fetch_request_path_witness:
  "attributes (model_with_id ''5a1'') ''_id'' = Some (JStr ''5a1'')
   \<and> new_requests (model_with_id ''5a1'') (fetch (model_with_id ''5a1''))
       = [\<lparr>req_method = GET, req_path = ''collection/5a1''\<rparr>]"
  using fetch_request_path [of "model_with_id ''5a1''" "''5a1''"] by (simp add: model_with_id_def)

text \<open>
  C6. Whatever the failure a request is rejected with, the outcome is the same: any two
  failures leave the model, its event log and the network log in the same state, which is
  the state before the fetch with the one request sent and the one \<open>g:error\<close> event
  added. The event carries its name only, no request follows the failure, and the options
  of the request pass \<open>null\<close> as the error handler; nothing is built from the failure.
\<close>

theorem fetch_failures_indistinguishable:
  "fetch_completed (Rejected f1) w = fetch_completed (Rejected f2) w
   \<and> fetch_completed (Rejected f1) w =
       w\<lparr>events := events w @ [\<lparr>ev_name = ''g:error'', ev_attrs = attributes w\<rparr>],
         network := network w @
           [\<lparr>req_method = GET, req_path = ''collection/'' @ js_to_string (get (attributes w) ''_id'')\<rparr>]\<rparr>
   \<and> get_prop (fetch_opts (attributes w)) ''error'' = JNull"
  by (simp add: fetch_completed_def settle_def error_callback_def trigger_def fetch_def
      restRequest_def fetch_opts_def get_prop_def)

text \<open>
  C7. One invocation of \<open>fetch\<close> sends exactly one read request, however the request
  completes: neither callback sends another. The options of the request are \<open>path\<close> and
  \<open>error\<close> alone, so no timeout is set.
\<close>

theorem fetch_one_request:
  "new_requests w (fetch_completed out w) =
     [\<lparr>req_method = GET, req_path = ''collection/'' @ js_to_string (get (attributes w) ''_id'')\<rparr>]
   \<and> network (fetch_completed out w) = network w @ new_requests w (fetch_completed out w)
   \<and> map fst (fetch_opts (attributes w)) = [''path'', ''error'']
   \<and> lookup_prop (fetch_opts (attributes w)) ''timeout'' = None"
  by (cases out)
    (simp_all add: new_requests_def fetch_completed_resolved fetch_completed_rejected fetch_fields
      fetch_opts_def)

text \<open>
  C8. A successful fetch merges the response into the attributes: an attribute whose name
  is not a property of the response body keeps the value it had before the fetch. The
  \<open>_id\<close> the path was built from is such an attribute when the response lacks it.
\<close>

theorem fetch_success_merges:
  "k \<notin> fst ` set resp \<Longrightarrow> attributes (fetch_completed (Resolved resp) w) k = attributes w k"
proof -
  assume "k \<notin> fst ` set resp"
  then have "map_of (rev resp) k = None" by (simp add: map_of_eq_None_iff)
  then show ?thesis by (simp add: fetch_completed_resolved map_add_def)
qed

theorem fetch_success_merges_witness:
  "''_id'' \<notin> fst ` set resp_ab
   \<and> attributes (fetch_completed (Resolved resp_ab) (model_with_id ''5a1'')) ''_id'' = Some (JStr ''5a1'')"
  using fetch_success_merges [of "''_id''" resp_ab "model_with_id ''5a1''"]
  by (simp add: resp_ab_def model_with_id_def)

text \<open>
  C9. Among the events an invocation of \<open>fetch\<close> adds to the log once its request has
  completed, exactly one is \<open>g:fetched\<close> or \<open>g:error\<close>: \<open>g:fetched\<close> when the
  request was resolved, \<open>g:error\<close> when it was rejected. It is the last event of the
  log, and it is delivered with the final attributes in place, which after a resolved
  request are the earlier ones overwritten by the response.
\<close>

theorem fetch_exactly_one_signal:
  "filter is_fetch_signal (new_events w (fetch_completed out w)) =
     [\<lparr>ev_name = (case out of Resolved resp \<Rightarrow> ''g:fetched'' | Rejected f \<Rightarrow> ''g:error''),
       ev_attrs = attributes (fetch_completed out w)\<rparr>]
   \<and> last (events (fetch_completed out w)) =
     \<lparr>ev_name = (case out of Resolved resp \<Rightarrow> ''g:fetched'' | Rejected f \<Rightarrow> ''g:error''),
       ev_attrs = attributes (fetch_completed out w)\<rparr>
   \<and> events (fetch_completed out w) = events w @ new_events w (fetch_completed out w)
   \<and> attributes (fetch_completed out w) =
       (case out of Resolved resp \<Rightarrow> attributes w ++ map_of (rev resp) | Rejected f \<Rightarrow> attributes w)"
proof (cases out)
  case (Resolved resp)
  show ?thesis
    by (simp add: Resolved new_events_def fetch_completed_resolved change_events_no_signal
        is_fetch_signal_def)
next
  case (Rejected f)
  show ?thesis
    by (simp add: Rejected new_events_def fetch_completed_rejected is_fetch_signal_def)
qed

text \<open>
  C10. \<open>fetch\<close> does not check the identifier: for a model with no \<open>_id\<close> attribute
  the request is sent all the same, to the path \<open>collection/undefined\<close>.
\<close>

theorem fetch_without_id:
  "attributes w ''_id'' = None \<Longrightarrow>
     network (fetch w) = network w @ [\<lparr>req_method = GET, req_path = ''collection/undefined''\<rparr>]"
  by (simp add: fetch_fields get_def)

theorem fetch_without_id_witness:
  "attributes new_model ''_id'' = None
   \<and> network (fetch new_model) = [\<lparr>req_method = GET, req_path = ''collection/undefined''\<rparr>]"
  using fetch_without_id [of new_model] by (simp add: new_model_def)

section \<open>The claims about provisioning\<close>




text \<open>
  C5. After the refresh of the package cache and the tasks of the external database role,
  a run performs, in this order and with nothing in between: the installation of the
  operating-system packages, the clone of the source tree at the version
  \<open>girder_version\<close>, the installation of the \<open>girder-client\<close> library, and the three
  administrative calls that ensure the admin user, then the assetstore, then the plugin.
\<close>

theorem provisioning_order:
  "run_order ext playbook =
     update_package_cache # ext ''Stouts.mongodb'' @
       [install_dependencies, download_girder, install_girder_client,
        create_admin_user, setup_assetstore, enable_gravatar]
   \<and> map step_of [install_dependencies, download_girder, install_girder_client,
        create_admin_user, setup_assetstore, enable_gravatar] =
       [InstallOsPackages [''git'', ''libffi-dev'', ''build-essential'', ''python2.7-dev'',
                           ''python-pip'', ''libjpeg-dev'', ''libssl-dev'', ''zlib1g-dev''],
        CloneSource [Lit ''https://github.com/girder/girder.git''] [Var ''girder_version''],
        InstallLibrary ''girder-client'',
        EnsureUser ''girder'' Present,
        EnsureAssetstore ''Primary assetstore'' ''filesystem'' Present,
        EnsurePlugins [''gravatar''] Present]"
  by (simp add: run_order_def playbook_def role_tasks_def girder_role_tasks_def step_of_def
      install_dependencies_def download_girder_def install_girder_client_def
      create_admin_user_def setup_assetstore_def enable_gravatar_def admin_user_def
      primary_assetstore_def)

end
